theory Spec2Isabelle
  imports Complex_Main "HOL-Library.AList"
begin

section \<open>Python values, exceptions and containers\<close>

text \<open>
  The embedding follows \<^verbatim>\<open>src/nnet/solver.py\<close> (Python 2). A raise of the source is a value
  of \<open>py_error\<close>; a method that mutates the solver returns the solver it leaves behind
  together with its outcome, also when it raises, because the attributes written before
  the raise stay written. Floating point numbers are idealised as rationals, but for the
  one product whose rounding decides how often the training loop runs (\<open>float_mul\<close> below).
  \<open>ShapeError\<close> stands for what numpy does with arrays whose shapes neither agree nor
  broadcast (the answer depends on numpy's version), and for the mean of no entries
  (\<^verbatim>\<open>nan\<close>, which the rationals lack); it is only reached when the model or the data break
  the shapes documented in the class docstring.
\<close>

datatype py_error =
  AssertionError | AttributeError | IndexError | KeyError | TypeError | ValueError
  | ZeroDivisionError | OSError | ShapeError | OtherError

type_synonym 'a dict = "(string \<times> 'a) list"

definition dict_get :: "'a dict \<Rightarrow> string \<Rightarrow> py_error + 'a" where
  "dict_get d k = (case map_of d k of None \<Rightarrow> Inl KeyError | Some v \<Rightarrow> Inr v)"

definition dict_set :: "string \<Rightarrow> 'a \<Rightarrow> 'a dict \<Rightarrow> 'a dict" where
  "dict_set k v d = AList.update k v d"

text \<open>\<^verbatim>\<open>{k: v for k, v in d.iteritems()}\<close>: a new dictionary holding the same values.\<close>

definition dict_copy :: "'a dict \<Rightarrow> 'a dict" where
  "dict_copy d = fold (\<lambda>(k, v) acc. dict_set k v acc) d []"

text \<open>A numpy array, flattened; its entries are idealised as rationals.\<close>

type_synonym array = "rat list"

text \<open>
  A hyperparameter value is an immutable number or a reference to a mutable numpy array
  held in the store. The store makes sharing visible: two configs that hold the same
  reference see each other's in-place updates.
\<close>

datatype cval = Num rat | Ref nat

type_synonym config = "cval dict"

type_synonym store = "nat \<Rightarrow> array"

definition read_cval :: "store \<Rightarrow> cval \<Rightarrow> array" where
  "read_cval st v = (case v of Num x \<Rightarrow> [x] | Ref a \<Rightarrow> st a)"

fun mapM :: "('a \<Rightarrow> py_error + 'b) \<Rightarrow> 'a list \<Rightarrow> py_error + 'b list" where
  "mapM f [] = Inr []"
| "mapM f (x # xs) =
     (case f x of Inl e \<Rightarrow> Inl e
      | Inr y \<Rightarrow> (case mapM f xs of Inl e \<Rightarrow> Inl e | Inr ys \<Rightarrow> Inr (y # ys)))"

subsection \<open>Indexing, slicing and splitting\<close>

text \<open>\<^verbatim>\<open>X[mask]\<close> with an index array.\<close>

definition take_idx :: "'a list \<Rightarrow> nat list \<Rightarrow> py_error + 'a list" where
  "take_idx xs msk =
     (if list_all (\<lambda>i. i < length xs) msk then Inr (map (\<lambda>i. xs ! i) msk)
      else Inl IndexError)"

text \<open>\<^verbatim>\<open>X[start:stop]\<close> with Python's clamping of the two bounds.\<close>

definition clamp_index :: "int \<Rightarrow> int \<Rightarrow> int" where
  "clamp_index n i = (if i < 0 then max (i + n) 0 else min i n)"

definition py_slice :: "'a list \<Rightarrow> int \<Rightarrow> int \<Rightarrow> 'a list" where
  "py_slice xs start stop =
     (let n = int (length xs); a = clamp_index n start; b = clamp_index n stop
      in take (nat (b - a)) (drop (nat a) xs))"

text \<open>The length of \<^verbatim>\<open>xs[start:]\<close> for a list of length \<open>L\<close>.\<close>

definition slice_from_len :: "int \<Rightarrow> int \<Rightarrow> int" where
  "slice_from_len L start = L - clamp_index L start"

fun split_sizes :: "nat list \<Rightarrow> 'a list \<Rightarrow> 'a list list" where
  "split_sizes [] xs = []"
| "split_sizes (k # ks) xs = take k xs # split_sizes ks (drop k xs)"

text \<open>
  \<^verbatim>\<open>np.array_split(ary, n)\<close>: \<open>n\<close> sections, the first \<open>len mod n\<close> of them one longer.
\<close>

definition array_split :: "'a list \<Rightarrow> int \<Rightarrow> py_error + 'a list list" where
  "array_split xs n =
     (if n \<le> 0 then Inl ValueError
      else let L = length xs; m = nat n
           in Inr (split_sizes
                (replicate (L mod m) (L div m + 1) @ replicate (m - L mod m) (L div m)) xs))"

subsection \<open>Reductions\<close>

definition np_mean :: "rat list \<Rightarrow> rat" where
  "np_mean xs = sum_list xs / of_nat (length xs)"

text \<open>\<^verbatim>\<open>np.mean(arrays, axis=0)\<close>: the elementwise mean of arrays of one shape.\<close>

definition mean_axis0 :: "array list \<Rightarrow> py_error + array" where
  "mean_axis0 gs =
     (case gs of [] \<Rightarrow> Inl ShapeError
      | g # _ \<Rightarrow>
          if list_all (\<lambda>h. length h = length g) gs
          then Inr (map (\<lambda>i. np_mean (map (\<lambda>h. h ! i) gs)) [0..<length g])
          else Inl ShapeError)"

text \<open>\<^verbatim>\<open>np.argmax\<close> of one row: the first index of the largest entry.\<close>

fun argmax_from :: "nat \<Rightarrow> rat \<Rightarrow> nat \<Rightarrow> rat list \<Rightarrow> nat" where
  "argmax_from best bv i [] = best"
| "argmax_from best bv i (x # xs) =
     (if bv < x then argmax_from i x (Suc i) xs else argmax_from best bv (Suc i) xs)"

definition np_argmax :: "rat list \<Rightarrow> py_error + nat" where
  "np_argmax row = (case row of [] \<Rightarrow> Inl ValueError | x # xs \<Rightarrow> Inr (argmax_from 0 x 1 xs))"

text \<open>\<^verbatim>\<open>np.argmax(scores, axis=1)\<close> for the scores of \<open>n\<close> items, one row each.\<close>

definition argmax_rows :: "nat \<Rightarrow> rat list list \<Rightarrow> py_error + nat list" where
  "argmax_rows n sc = (if length sc = n then mapM np_argmax sc else Inl ShapeError)"

text \<open>\<^verbatim>\<open>np.mean(y_pred == y)\<close> for two arrays of one length.\<close>

definition np_mean_eq :: "nat list \<Rightarrow> nat list \<Rightarrow> rat" where
  "np_mean_eq y_pred ys =
     of_nat (length (filter (\<lambda>(a, b). a = b) (zip y_pred ys))) / of_nat (length y_pred)"

text \<open>
  \<^verbatim>\<open>np.mean(y_pred == y)\<close> for two one-dimensional arrays: of one length they are compared
  entry by entry; an array of one entry is broadcast against the other one. \<open>None\<close>
  where the lengths neither agree nor broadcast, and where nothing is left to average.
\<close>

definition np_mean_eq_broadcast :: "nat list \<Rightarrow> nat list \<Rightarrow> rat option" where
  "np_mean_eq_broadcast y_pred ys =
     (if y_pred = [] \<or> ys = [] then None
      else if length ys = length y_pred then Some (np_mean_eq y_pred ys)
      else if length ys = 1 then Some (np_mean_eq y_pred (replicate (length y_pred) (hd ys)))
      else if length y_pred = 1 then Some (np_mean_eq (replicate (length ys) (hd y_pred)) ys)
      else None)"

subsection \<open>Strings\<close>

text \<open>\<^verbatim>\<open>s.split(c)\<close>\<close>

fun split_on :: "char \<Rightarrow> string \<Rightarrow> string list" where
  "split_on c [] = [[]]"
| "split_on c (x # xs) =
     (if x = c then [] # split_on c xs
      else (case split_on c xs of [] \<Rightarrow> [[x]] | w # ws \<Rightarrow> (x # w) # ws))"

definition digit_char :: "nat \<Rightarrow> char" where
  "digit_char d = ''0123456789'' ! d"

fun str_nat :: "nat \<Rightarrow> string" where
  "str_nat n = (if n < 10 then [digit_char n] else str_nat (n div 10) @ [digit_char (n mod 10)])"

text \<open>\<^verbatim>\<open>str(n)\<close> for an integer.\<close>

definition str_int :: "int \<Rightarrow> string" where
  "str_int i = (if i < 0 then CHR ''-'' # str_nat (nat (- i)) else str_nat (nat i))"

definition is_space :: "char \<Rightarrow> bool" where
  "is_space c = (c \<in> set [CHR '' '', CHR 0x09, CHR 0x0A, CHR 0x0B, CHR 0x0C, CHR 0x0D])"

definition digit_val :: "char \<Rightarrow> nat option" where
  "digit_val c = map_of (zip ''0123456789'' [0..<10]) c"

fun digits_val :: "nat \<Rightarrow> string \<Rightarrow> nat option" where
  "digits_val acc [] = Some acc"
| "digits_val acc (c # cs) =
     (case digit_val c of None \<Rightarrow> None | Some d \<Rightarrow> digits_val (10 * acc + d) cs)"

text \<open>
  \<^verbatim>\<open>int(s)\<close> for a string: surrounding whitespace is dropped, then an optional sign and
  at least one decimal digit must remain.
\<close>

definition py_int :: "string \<Rightarrow> py_error + int" where
  "py_int s =
     (let t = rev (dropWhile is_space (rev (dropWhile is_space s)));
          neg = (t \<noteq> [] \<and> hd t = CHR ''-'');
          ds = (if t \<noteq> [] \<and> (hd t = CHR ''-'' \<or> hd t = CHR ''+'') then tl t else t)
      in if ds = [] then Inl ValueError
         else (case digits_val 0 ds of None \<Rightarrow> Inl ValueError
               | Some v \<Rightarrow> Inr (if neg then - int v else int v)))"

text \<open>\<^verbatim>\<open>os.path.join(a, b)\<close>\<close>

definition path_join :: "string \<Rightarrow> string \<Rightarrow> string" where
  "path_join a b =
     (if b \<noteq> [] \<and> hd b = CHR ''/'' then b
      else if a = [] \<or> last a = CHR ''/'' then a @ b
      else a @ ''/'' @ b)"

text \<open>\<^verbatim>\<open>int(q)\<close> for a number: truncation towards zero.\<close>

definition int_of_num :: "rat \<Rightarrow> int" where
  "int_of_num q = (if 0 \<le> q then \<lfloor>q\<rfloor> else \<lceil>q\<rceil>)"

text \<open>
  A Python number: an integer, or a float given by its exact value (infinities and
  \<^verbatim>\<open>nan\<close> are left out). \<open>num_value\<close> is the number it stands for.
\<close>

datatype pynum = PyInt int | PyFloat rat


section \<open>The solver and what it consumes\<close>

text \<open>
  A checkpoint as \<^verbatim>\<open>joblib.load\<close> returns it: a dictionary, so each key may be missing
  (\<open>None\<close>, a \<^verbatim>\<open>KeyError\<close> on lookup).
\<close>

record checkpoint =
  cp_model :: "array dict option"
  cp_epoch :: "int option"
  cp_best_params :: "array dict option"
  cp_best_val_acc :: "rat option"
  cp_loss_history :: "rat list option"
  cp_train_acc_history :: "rat list option"
  cp_val_acc_history :: "rat list option"

text \<open>
  What the solver consumes and this repository does not define: the model
  (\<^verbatim>\<open>model.loss(X, y)\<close>, \<^verbatim>\<open>model.loss(X)\<close>, \<^verbatim>\<open>model.loss_helper\<close>), the update rule
  of \<^verbatim>\<open>optim\<close>, numpy's random generator, the file system and joblib. \<open>'x\<close> is one item of
  data, \<open>'w\<close> the state of the world outside the solver (generator and disk).
  The generator yields the \<open>j\<close>-th index of a draw; \<open>np_random_choice\<close> below reduces it
  into the population. \<open>float_mul x k\<close> is the product of the float \<open>x\<close> and the integer
  \<open>k\<close> as the machine computes it, that is, rounded to a float.
\<close>

record ('x, 'w) env =
  model_loss :: "array dict \<Rightarrow> 'x list \<Rightarrow> nat list \<Rightarrow> py_error + (rat \<times> array dict)"
  model_scores :: "array dict \<Rightarrow> 'x list \<Rightarrow> py_error + rat list list"
  model_loss_helper :: "array dict \<Rightarrow> 'x list \<times> nat list \<Rightarrow> py_error + (rat \<times> array dict)"
  update_rule :: "store \<Rightarrow> array \<Rightarrow> array \<Rightarrow> config \<Rightarrow> py_error + (array \<times> config \<times> store)"
  rand_index :: "'w \<Rightarrow> nat \<Rightarrow> nat"
  rand_next :: "'w \<Rightarrow> 'w"
  listdir :: "'w \<Rightarrow> string \<Rightarrow> py_error + string list"
  joblib_load :: "'w \<Rightarrow> string \<Rightarrow> py_error + checkpoint"
  path_exists :: "'w \<Rightarrow> string \<Rightarrow> bool"
  makedirs :: "'w \<Rightarrow> string \<Rightarrow> py_error + 'w"
  joblib_dump :: "'w \<Rightarrow> checkpoint \<Rightarrow> string \<Rightarrow> py_error + 'w"
  float_mul :: "rat \<Rightarrow> int \<Rightarrow> rat"

datatype pool_state = Running | Terminated

text \<open>
  The attributes of a \<^verbatim>\<open>Solver\<close>. \<open>model_params\<close> is \<^verbatim>\<open>self.model.params\<close>; \<open>pool\<close> is
  \<open>None\<close> while the attribute \<^verbatim>\<open>self.pool\<close> does not exist; \<open>num_epochs\<close> is a number, an
  integer or a float (\<^verbatim>\<open>train\<close> applies \<^verbatim>\<open>int\<close> to its product with the iterations per
  epoch); \<open>load_dir\<close> is \<open>None\<close> for \<^verbatim>\<open>False\<close>.
\<close>

record ('x, 'w) solver =
  X_train :: "'x list"
  y_train :: "nat list"
  X_val :: "'x list"
  y_val :: "nat list"
  optim_config :: config
  lr_decay :: rat
  batch_size :: int
  num_epochs :: pynum
  print_every :: int
  verbose :: bool
  load_dir :: "string option"
  path_checkpoints :: string
  check_point_every :: int
  custom_update_ld :: "(int \<Rightarrow> rat) option"
  batch_augment_func :: "('x list \<Rightarrow> 'x list) option"
  num_processes :: int
  model_params :: "array dict"
  epoch :: int
  best_val_acc :: rat
  best_params :: "array dict"
  loss_history :: "rat list"
  train_acc_history :: "rat list"
  val_acc_history :: "rat list"
  optim_configs :: "config dict"
  multiprocessing :: bool
  pool :: "pool_state option"
  store :: store
  world :: 'w

text \<open>
  \<^verbatim>\<open>np.random.choice(a, size)\<close>: \<open>size\<close> indices below \<open>a\<close>, drawn with replacement.
\<close>

definition np_random_choice ::
  "('x, 'w) env \<Rightarrow> 'w \<Rightarrow> nat \<Rightarrow> int \<Rightarrow> py_error + (nat list \<times> 'w)" where
  "np_random_choice env w a sz =
     (if a = 0 \<or> sz < 0 then Inl ValueError
      else Inr (map (\<lambda>j. rand_index env w j mod a) [0..<nat sz], rand_next env w))"

subsection \<open>\<^verbatim>\<open>_reset\<close>\<close>

definition reset :: "('x, 'w) solver \<Rightarrow> py_error option \<times> ('x, 'w) solver" where
  "reset s =
     (let s1 = s\<lparr>epoch := 0, best_val_acc := 0, best_params := [], loss_history := [],
                 train_acc_history := [], val_acc_history := [],
                 optim_configs :=
                   fold (\<lambda>p cfgs. dict_set p (dict_copy (optim_config s)) cfgs)
                     (map fst (model_params s)) [],
                 multiprocessing := (num_processes s - 1 \<noteq> 0)\<rparr>
      in if multiprocessing s1
         then (if num_processes s1 < 1 then (Some ValueError, s1)
               else (None, s1\<lparr>pool := Some Running\<rparr>))
         else (None, s1))"

subsection \<open>\<^verbatim>\<open>_step\<close>\<close>

text \<open>
  Lines 283 to 286: the mean of the shard losses, and for every parameter of the model
  the mean over the shards of that parameter's gradient.
\<close>

fun aggregate_grads ::
  "string list \<Rightarrow> array dict list \<Rightarrow> array dict \<Rightarrow> py_error + array dict" where
  "aggregate_grads [] gradses grads = Inr grads"
| "aggregate_grads (p # ps) gradses grads =
     (case mapM (\<lambda>grad. dict_get grad p) gradses of Inl e \<Rightarrow> Inl e
      | Inr gs \<Rightarrow>
          (case mean_axis0 gs of Inl e \<Rightarrow> Inl e
           | Inr m \<Rightarrow> aggregate_grads ps gradses (dict_set p m grads)))"

definition aggregate ::
  "array dict \<Rightarrow> (rat \<times> array dict) list \<Rightarrow> py_error + (rat \<times> array dict)" where
  "aggregate ps results =
     (let losses = map fst results; gradses = map snd results; loss = np_mean losses
      in case aggregate_grads (map fst ps) gradses [] of Inl e \<Rightarrow> Inl e
         | Inr grads \<Rightarrow> Inr (loss, grads))"

text \<open>
  Lines 260 to 286. Of several failing jobs of \<^verbatim>\<open>pool.map_async\<close> the leftmost one's
  error is the one re-raised here.
\<close>

definition compute_loss ::
  "('x, 'w) env \<Rightarrow> ('x, 'w) solver \<Rightarrow> 'x list \<Rightarrow> nat list
     \<Rightarrow> (py_error + (rat \<times> array dict)) \<times> ('x, 'w) solver" where
  "compute_loss env s X_batch y_batch =
     (if \<not> multiprocessing s then (model_loss env (model_params s) X_batch y_batch, s)
      else
        (case pool s of None \<Rightarrow> (Inl AttributeError, s)
         | Some pl \<Rightarrow>
            (case array_split X_batch (num_processes s) of Inl e \<Rightarrow> (Inl e, s)
             | Inr X_batches \<Rightarrow>
                (case array_split y_batch (num_processes s) of Inl e \<Rightarrow> (Inl e, s)
                 | Inr y_batches \<Rightarrow>
                    (case (if pl = Terminated then Inl AssertionError
                           else mapM (model_loss_helper env (model_params s))
                                  (zip X_batches y_batches)) of
                       Inl e \<Rightarrow> (Inl e, s\<lparr>pool := Some Terminated\<rparr>)
                     | Inr results \<Rightarrow> (aggregate (model_params s) results, s))))))"

text \<open>Lines 291 to 296, over the items of \<^verbatim>\<open>self.model.params\<close>.\<close>

fun update_params ::
  "('x, 'w) env \<Rightarrow> array dict \<Rightarrow> (string \<times> array) list \<Rightarrow> ('x, 'w) solver
     \<Rightarrow> py_error option \<times> ('x, 'w) solver" where
  "update_params env grads [] s = (None, s)"
| "update_params env grads ((p, w) # items) s =
     (case dict_get grads p of Inl e \<Rightarrow> (Some e, s)
      | Inr dw \<Rightarrow>
         (case dict_get (optim_configs s) p of Inl e \<Rightarrow> (Some e, s)
          | Inr config \<Rightarrow>
             (case update_rule env (store s) w dw config of Inl e \<Rightarrow> (Some e, s)
              | Inr (next_w, next_config, st) \<Rightarrow>
                  update_params env grads items
                    (s\<lparr>model_params := dict_set p next_w (model_params s),
                       optim_configs := dict_set p next_config (optim_configs s),
                       store := st\<rparr>))))"

definition step :: "('x, 'w) env \<Rightarrow> ('x, 'w) solver \<Rightarrow> py_error option \<times> ('x, 'w) solver" where
  "step env s =
     (case np_random_choice env (world s) (length (X_train s)) (batch_size s) of
        Inl e \<Rightarrow> (Some e, s)
      | Inr (batch_mask, w1) \<Rightarrow>
         (let s1 = s\<lparr>world := w1\<rparr> in
          case take_idx (X_train s1) batch_mask of Inl e \<Rightarrow> (Some e, s1)
          | Inr X_batch0 \<Rightarrow>
             (case take_idx (y_train s1) batch_mask of Inl e \<Rightarrow> (Some e, s1)
              | Inr y_batch \<Rightarrow>
                 (let X_batch = (case batch_augment_func s1 of None \<Rightarrow> X_batch0
                                 | Some f \<Rightarrow> f X_batch0)
                  in case compute_loss env s1 X_batch y_batch of
                       (Inl e, s2) \<Rightarrow> (Some e, s2)
                     | (Inr (loss, grads), s2) \<Rightarrow>
                         update_params env grads (model_params s2)
                           (s2\<lparr>loss_history := loss_history s2 @ [loss]\<rparr>)))))"

subsection \<open>\<^verbatim>\<open>load_current_checkpoint\<close>, \<^verbatim>\<open>make_check_point\<close> and the end of \<^verbatim>\<open>__init__\<close>\<close>

text \<open>\<^verbatim>\<open>int(f.split('_')[1])\<close>\<close>

definition checkpoint_number :: "string \<Rightarrow> py_error + int" where
  "checkpoint_number f =
     (case split_on (CHR ''_'') f of a # b # rest \<Rightarrow> py_int b | _ \<Rightarrow> Inl IndexError)"

text \<open>\<^verbatim>\<open>max(xs)\<close> of a list of integers.\<close>

definition py_max :: "int list \<Rightarrow> py_error + int" where
  "py_max xs = (case xs of [] \<Rightarrow> Inl ValueError | x # rest \<Rightarrow> Inr (fold max rest x))"

text \<open>
  The body of the \<^verbatim>\<open>try\<close> of lines 304 to 314. An error anywhere in it reaches the
  handler, which resets every attribute the body assigns, so the body is modelled as
  all or nothing.
\<close>

definition try_load ::
  "('x, 'w) env \<Rightarrow> ('x, 'w) solver \<Rightarrow> string list \<Rightarrow> py_error + ('x, 'w) solver" where
  "try_load env s checkpoints =
     (case mapM checkpoint_number checkpoints of Inl e \<Rightarrow> Inl e
      | Inr nums \<Rightarrow>
         (case py_max nums of Inl e \<Rightarrow> Inl e
          | Inr num \<Rightarrow>
             (let name = ''check_'' @ str_int num in
              case joblib_load env (world s)
                     (path_join (path_join (path_checkpoints s) name) (name @ ''.pkl'')) of
                Inl e \<Rightarrow> Inl e
              | Inr cp \<Rightarrow>
                 (case (cp_epoch cp, cp_best_val_acc cp, cp_best_params cp,
                        cp_loss_history cp, cp_train_acc_history cp, cp_val_acc_history cp) of
                    (Some e, Some a, Some bp, Some lh, Some th, Some vh) \<Rightarrow>
                      Inr (s\<lparr>epoch := e, best_val_acc := a, best_params := bp,
                             loss_history := lh, train_acc_history := th,
                             val_acc_history := vh\<rparr>)
                  | _ \<Rightarrow> Inl KeyError))))"

text \<open>
  \<^verbatim>\<open>os.listdir(self.load_dir)\<close> stands before the \<^verbatim>\<open>try\<close>: what it raises leaves the
  method.
\<close>

definition load_current_checkpoint ::
  "('x, 'w) env \<Rightarrow> ('x, 'w) solver \<Rightarrow> py_error option \<times> ('x, 'w) solver" where
  "load_current_checkpoint env s =
     (case load_dir s of None \<Rightarrow> (Some TypeError, s)
      | Some d \<Rightarrow>
         (case listdir env (world s) d of Inl e \<Rightarrow> (Some e, s)
          | Inr checkpoints \<Rightarrow>
             (case try_load env s checkpoints of Inl e \<Rightarrow> reset s
              | Inr s1 \<Rightarrow> (None, s1))))"

definition make_check_point ::
  "('x, 'w) env \<Rightarrow> ('x, 'w) solver \<Rightarrow> py_error option \<times> ('x, 'w) solver" where
  "make_check_point env s =
     (let checkpoints =
            \<lparr>cp_model = Some (model_params s), cp_epoch = Some (epoch s),
             cp_best_params = Some (best_params s), cp_best_val_acc = Some (best_val_acc s),
             cp_loss_history = Some (loss_history s),
             cp_train_acc_history = Some (train_acc_history s),
             cp_val_acc_history = Some (val_acc_history s)\<rparr>;
          name = ''check_'' @ str_int (epoch s);
          directory = path_join (path_checkpoints s) name
      in case (if path_exists env (world s) directory then Inr (world s)
               else makedirs env (world s) directory) of
           Inl e \<Rightarrow> (Some e, s)
         | Inr w1 \<Rightarrow>
            (case joblib_dump env w1 checkpoints (path_join directory (name @ ''.pkl'')) of
               Inl e \<Rightarrow> (Some e, s\<lparr>world := w1\<rparr>)
             | Inr w2 \<Rightarrow> (None, s\<lparr>world := w2\<rparr>)))"

text \<open>
  Lines 200 to 202 of \<^verbatim>\<open>__init__\<close>, after the keyword arguments are unpacked into the
  attributes. \<^verbatim>\<open>if self.load_dir\<close> is false for \<^verbatim>\<open>False\<close> and for the empty string.
\<close>

definition init :: "('x, 'w) env \<Rightarrow> ('x, 'w) solver \<Rightarrow> py_error option \<times> ('x, 'w) solver" where
  "init env s =
     (case reset s of (Some e, s1) \<Rightarrow> (Some e, s1)
      | (None, s1) \<Rightarrow>
         (if load_dir s1 \<noteq> None \<and> load_dir s1 \<noteq> Some [] then load_current_checkpoint env s1
          else (None, s1)))"

subsection \<open>\<^verbatim>\<open>check_accuracy\<close>\<close>

datatype acc_result = Preds "nat list" | Acc rat

text \<open>Lines 358 to 363: the data, maybe subsampled, and its size \<open>N\<close>.\<close>

definition subsample ::
  "('x, 'w) env \<Rightarrow> ('x, 'w) solver \<Rightarrow> 'x list \<Rightarrow> nat list option \<Rightarrow> int option
     \<Rightarrow> (py_error + (int \<times> 'x list \<times> nat list option)) \<times> ('x, 'w) solver" where
  "subsample env s X y num_samples =
     (let N = int (length X) in
      case num_samples of None \<Rightarrow> (Inr (N, X, y), s)
      | Some k \<Rightarrow>
         if N > k then
           (case np_random_choice env (world s) (length X) k of Inl e \<Rightarrow> (Inl e, s)
            | Inr (msk, w1) \<Rightarrow>
               (let s1 = s\<lparr>world := w1\<rparr> in
                case take_idx X msk of Inl e \<Rightarrow> (Inl e, s1)
                | Inr X1 \<Rightarrow>
                   (case y of None \<Rightarrow> (Inl TypeError, s1)
                    | Some ys \<Rightarrow>
                       (case take_idx ys msk of Inl e \<Rightarrow> (Inl e, s1)
                        | Inr y1 \<Rightarrow> (Inr (k, X1, Some y1), s1)))))
         else (Inr (N, X, y), s))"

text \<open>
  The body of the loop of lines 372 to 389 for one chunk \<^verbatim>\<open>X[start:end]\<close>: the arrays
  it appends to \<^verbatim>\<open>y_pred\<close>.
\<close>

definition predict_chunk ::
  "('x, 'w) env \<Rightarrow> ('x, 'w) solver \<Rightarrow> 'x list \<Rightarrow> (py_error + nat list list) \<times> ('x, 'w) solver" where
  "predict_chunk env s chunk =
     (if \<not> multiprocessing s then
        (case model_scores env (model_params s) chunk of Inl e \<Rightarrow> (Inl e, s)
         | Inr sc \<Rightarrow>
            (case argmax_rows (length chunk) sc of Inl e \<Rightarrow> (Inl e, s)
             | Inr p \<Rightarrow> (Inr [p], s)))
      else
        (case array_split chunk (num_processes s) of Inl e \<Rightarrow> (Inl e, s)
         | Inr X_subs \<Rightarrow>
            (case pool s of None \<Rightarrow> (Inl AttributeError, s)
             | Some pl \<Rightarrow>
                (case (if pl = Terminated then Inl AssertionError
                       else mapM (\<lambda>sub. case model_scores env (model_params s) sub of
                                           Inl e \<Rightarrow> Inl e
                                         | Inr sc \<Rightarrow> argmax_rows (length sub) sc) X_subs) of
                   Inl e \<Rightarrow> (Inl e, s\<lparr>pool := Some Terminated\<rparr>)
                 | Inr ps \<Rightarrow> (Inr ps, s)))))"

fun predict_batches ::
  "('x, 'w) env \<Rightarrow> ('x, 'w) solver \<Rightarrow> 'x list \<Rightarrow> int \<Rightarrow> nat list
     \<Rightarrow> (py_error + nat list list) \<times> ('x, 'w) solver" where
  "predict_batches env s X bs [] = (Inr [], s)"
| "predict_batches env s X bs (i # is) =
     (case predict_chunk env s (py_slice X (int i * bs) ((int i + 1) * bs)) of
        (Inl e, s1) \<Rightarrow> (Inl e, s1)
      | (Inr ps, s1) \<Rightarrow>
         (case predict_batches env s1 X bs is of (Inl e, s2) \<Rightarrow> (Inl e, s2)
          | (Inr rest, s2) \<Rightarrow> (Inr (ps @ rest), s2)))"


text \<open>Line 355, the condition of the \<^verbatim>\<open>assert\<close> as the source writes it.\<close>

definition labels_contract_assertion :: "nat list option \<Rightarrow> bool \<Rightarrow> bool" where
  "labels_contract_assertion y return_preds =
     ((y = None \<and> return_preds) \<or> \<not> (y = None \<and> return_preds))"

text \<open>
  Lines 339 to 396. \<^verbatim>\<open>np.hstack\<close> of no array raises; \<^verbatim>\<open>y_pred == None\<close> holds nowhere,
  so its mean is \<open>0\<close>.
\<close>

definition check_accuracy ::
  "('x, 'w) env \<Rightarrow> ('x, 'w) solver \<Rightarrow> 'x list \<Rightarrow> nat list option \<Rightarrow> int option \<Rightarrow> int \<Rightarrow> bool
     \<Rightarrow> (py_error + acc_result) \<times> ('x, 'w) solver" where
  "check_accuracy env s X y num_samples bs return_preds =
     (if \<not> labels_contract_assertion y return_preds then (Inl AssertionError, s)
      else
        (case subsample env s X y num_samples of (Inl e, s1) \<Rightarrow> (Inl e, s1)
         | (Inr (N, X1, y1), s1) \<Rightarrow>
            if bs = 0 then (Inl ZeroDivisionError, s1)
            else
              (let num_batches = (if N mod bs \<noteq> 0 then N div bs + 1 else N div bs) in
               case predict_batches env s1 X1 bs [0..<nat num_batches] of
                 (Inl e, s2) \<Rightarrow> (Inl e, s2)
               | (Inr chunks, s2) \<Rightarrow>
                  if chunks = [] then (Inl ValueError, s2)
                  else
                    (let y_pred = concat chunks in
                     if return_preds then (Inr (Preds y_pred), s2)
                     else
                       (case y1 of None \<Rightarrow> (Inr (Acc 0), s2)
                        | Some ys \<Rightarrow>
                           (case np_mean_eq_broadcast y_pred ys of
                              None \<Rightarrow> (Inl ShapeError, s2)
                            | Some acc \<Rightarrow> (Inr (Acc acc), s2)))))))"

subsection \<open>\<^verbatim>\<open>train\<close>\<close>

text \<open>
  Lines 403 and 404; \<^verbatim>\<open>/\<close> on two integers is floor division in Python 2. The product of
  two integers is exact; the product of a float and an integer is a float, which \<^verbatim>\<open>int\<close>
  truncates.
\<close>

definition iterations_per_epoch :: "('x, 'w) solver \<Rightarrow> int" where
  "iterations_per_epoch s = max (int (length (X_train s)) div batch_size s) 1"

definition num_iterations :: "('x, 'w) env \<Rightarrow> ('x, 'w) solver \<Rightarrow> int" where
  "num_iterations env s =
     (case num_epochs s of PyInt k \<Rightarrow> k * iterations_per_epoch s
      | PyFloat x \<Rightarrow> int_of_num (float_mul env x (iterations_per_epoch s)))"

text \<open>Line 414.\<close>

definition epoch_end :: "int \<Rightarrow> int \<Rightarrow> bool" where
  "epoch_end ipe it = ((it + 1) mod ipe = 0)"

text \<open>
  Lines 418 to 421: the condition under which iteration \<open>it\<close> of \<open>n\<close> checks the
  accuracies.
\<close>

definition evaluation_gate :: "('x, 'w) solver \<Rightarrow> int \<Rightarrow> int \<Rightarrow> int \<Rightarrow> bool" where
  "evaluation_gate s ipe n it =
     (let first_it = (it = 0);
          last_it = (it = n + 1);
          verbose_it = (verbose s \<and> (it + 1) mod print_every s = 0)
      in first_it \<or> last_it \<or> epoch_end ipe it \<or> verbose_it)"

text \<open>
  Lines 422 to 445, the accuracy check of iteration \<open>it\<close>. The mean of the last seconds
  per batch divides by the length of \<^verbatim>\<open>secs_per_batch[-self.print_every:]\<close>, a slice of a
  list of \<open>it + 1\<close> entries. With \<^verbatim>\<open>return_preds\<close> left at \<^verbatim>\<open>False\<close> the evaluator
  returns an accuracy; the other case is there for totality.
\<close>

definition evaluate ::
  "('x, 'w) env \<Rightarrow> int \<Rightarrow> ('x, 'w) solver \<Rightarrow> py_error option \<times> ('x, 'w) solver" where
  "evaluate env it s =
     (case check_accuracy env s (X_train s) (Some (y_train s)) (Some 1000) 100 False of
        (Inl e, s1) \<Rightarrow> (Some e, s1)
      | (Inr r1, s1) \<Rightarrow>
         (case check_accuracy env s1 (X_val s1) (Some (y_val s1)) None 100 False of
            (Inl e, s2) \<Rightarrow> (Some e, s2)
          | (Inr r2, s2) \<Rightarrow>
             (case (r1, r2) of
                (Acc train_acc, Acc val_acc) \<Rightarrow>
                  if verbose s2 \<and> slice_from_len (it + 1) (- print_every s2) = 0
                  then (Some ZeroDivisionError, s2)
                  else
                    (let s3 = s2\<lparr>train_acc_history := train_acc_history s2 @ [train_acc],
                                val_acc_history := val_acc_history s2 @ [val_acc]\<rparr>
                     in if val_acc > best_val_acc s3
                        then (None, s3\<lparr>best_val_acc := val_acc,
                                       best_params := dict_copy (model_params s3)\<rparr>)
                        else (None, s3))
              | _ \<Rightarrow> (Some TypeError, s2))))"

text \<open>
  Line 455 for one key: \<^verbatim>\<open>self.optim_configs[k]['learning_rate'] *= self.lr_decay\<close>.
  On a number the product is a new number, stored under the key; on a numpy array
  \<^verbatim>\<open>*=\<close> scales the array where it lies.
\<close>

definition decay_learning_rate ::
  "string \<Rightarrow> ('x, 'w) solver \<Rightarrow> py_error option \<times> ('x, 'w) solver" where
  "decay_learning_rate k s =
     (case dict_get (optim_configs s) k of Inl e \<Rightarrow> (Some e, s)
      | Inr cfg \<Rightarrow>
         (case dict_get cfg ''learning_rate'' of Inl e \<Rightarrow> (Some e, s)
          | Inr (Num v) \<Rightarrow>
              (None, s\<lparr>optim_configs :=
                         dict_set k (dict_set ''learning_rate'' (Num (v * lr_decay s)) cfg)
                           (optim_configs s)\<rparr>)
          | Inr (Ref a) \<Rightarrow>
              (None, s\<lparr>store := (store s)(a := map (\<lambda>x. x * lr_decay s) (store s a))\<rparr>)))"

fun decay_learning_rates ::
  "string list \<Rightarrow> ('x, 'w) solver \<Rightarrow> py_error option \<times> ('x, 'w) solver" where
  "decay_learning_rates [] s = (None, s)"
| "decay_learning_rates (k # ks) s =
     (case decay_learning_rate k s of (Some e, s1) \<Rightarrow> (Some e, s1)
      | (None, s1) \<Rightarrow> decay_learning_rates ks s1)"

text \<open>Lines 447 to 460.\<close>

definition end_of_epoch ::
  "('x, 'w) env \<Rightarrow> ('x, 'w) solver \<Rightarrow> py_error option \<times> ('x, 'w) solver" where
  "end_of_epoch env s =
     (let s1 = s\<lparr>epoch := epoch s + 1\<rparr>;
          s2 = (case custom_update_ld s1 of None \<Rightarrow> s1
                | Some f \<Rightarrow> s1\<lparr>lr_decay := f (epoch s1)\<rparr>)
      in case decay_learning_rates (map fst (optim_configs s2)) s2 of
           (Some e, s3) \<Rightarrow> (Some e, s3)
         | (None, s3) \<Rightarrow>
             if check_point_every s3 \<noteq> 0 \<and> epoch s3 mod check_point_every s3 = 0
             then make_check_point env s3
             else (None, s3))"

text \<open>The body of the loop of line 407 for iteration \<open>it\<close>.\<close>

definition iteration ::
  "('x, 'w) env \<Rightarrow> int \<Rightarrow> int \<Rightarrow> int \<Rightarrow> ('x, 'w) solver \<Rightarrow> py_error option \<times> ('x, 'w) solver" where
  "iteration env ipe n it s =
     (case step env s of (Some e, s1) \<Rightarrow> (Some e, s1)
      | (None, s1) \<Rightarrow>
         if verbose s1 \<and> print_every s1 = 0 then (Some ZeroDivisionError, s1)
         else
           (case (if evaluation_gate s1 ipe n it then evaluate env it s1 else (None, s1)) of
              (Some e, s2) \<Rightarrow> (Some e, s2)
            | (None, s2) \<Rightarrow> if epoch_end ipe it then end_of_epoch env s2 else (None, s2)))"

fun train_loop ::
  "('x, 'w) env \<Rightarrow> int \<Rightarrow> int \<Rightarrow> nat list \<Rightarrow> ('x, 'w) solver
     \<Rightarrow> py_error option \<times> ('x, 'w) solver" where
  "train_loop env ipe n [] s = (None, s)"
| "train_loop env ipe n (it # its) s =
     (case iteration env ipe n (int it) s of (Some e, s1) \<Rightarrow> (Some e, s1)
      | (None, s1) \<Rightarrow> train_loop env ipe n its s1)"

text \<open>Lines 463 to 465.\<close>

definition swap_and_release :: "('x, 'w) solver \<Rightarrow> py_error option \<times> ('x, 'w) solver" where
  "swap_and_release s =
     (let s1 = s\<lparr>model_params := best_params s\<rparr>
      in case pool s1 of None \<Rightarrow> (Some AttributeError, s1)
         | Some pl \<Rightarrow> (None, s1\<lparr>pool := Some Terminated\<rparr>))"

text \<open>
  Lines 402 to 460: the loop \<^verbatim>\<open>for it in xrange(num_iterations)\<close> with the two numbers
  computed before it. \<^verbatim>\<open>num_train / self.batch_size\<close> raises when the batch size is \<open>0\<close>.
\<close>

definition train_iterations ::
  "('x, 'w) env \<Rightarrow> ('x, 'w) solver \<Rightarrow> py_error option \<times> ('x, 'w) solver" where
  "train_iterations env s =
     (if batch_size s = 0 then (Some ZeroDivisionError, s)
      else train_loop env (iterations_per_epoch s) (num_iterations env s)
             [0..<nat (num_iterations env s)] s)"

definition train :: "('x, 'w) env \<Rightarrow> ('x, 'w) solver \<Rightarrow> py_error option \<times> ('x, 'w) solver" where
  "train env s =
     (case train_iterations env s of (Some e, s1) \<Rightarrow> (Some e, s1)
      | (None, s1) \<Rightarrow> swap_and_release s1)"

section \<open>A concrete model and solver\<close>

text \<open>
  A small world to run the solver in: items are numbers, the model scores class \<open>0\<close>
  highest for every item, its loss is \<open>1\<close> with gradient \<open>1\<close> everywhere, the update rule
  subtracts the gradient, the generator counts, and the only directory that can be listed
  is an empty \<^verbatim>\<open>checkpoints\<close>. Its float product is the exact one: it is only used on
  \<open>3/2\<close> times \<open>1\<close> and times \<open>2\<close>, which floats compute without rounding.
\<close>

definition demo_env :: "(nat, nat) env" where
  "demo_env =
     \<lparr>model_loss = (\<lambda>ps X y. Inr (1, map (\<lambda>(k, v). (k, map (\<lambda>x. 1) v)) ps)),
      model_scores = (\<lambda>ps X. Inr (map (\<lambda>x. [1, 0]) X)),
      model_loss_helper = (\<lambda>ps (X, y). Inr (1, map (\<lambda>(k, v). (k, map (\<lambda>x. 1) v)) ps)),
      update_rule = (\<lambda>st w dw cfg. Inr (map (\<lambda>(a, b). a - b) (zip w dw), cfg, st)),
      rand_index = (\<lambda>w j. w + j),
      rand_next = Suc,
      listdir = (\<lambda>w d. if d = ''checkpoints'' then Inr [] else Inl OSError),
      joblib_load = (\<lambda>w f. Inl OSError),
      path_exists = (\<lambda>w d. False),
      makedirs = (\<lambda>w d. Inr w),
      joblib_dump = (\<lambda>w c f. Inr w),
      float_mul = (\<lambda>x k. x * of_int k)\<rparr>"

text \<open>
  A solver as lines 166 to 187 of \<^verbatim>\<open>__init__\<close> leave it when only the model and the data
  are given (every keyword at its default), but for an \<^verbatim>\<open>optim_config\<close> that holds a
  learning rate and for a quiet run. The book-keeping attributes do not exist yet at
  that point; \<open>reset\<close> assigns them.
\<close>

definition new_solver ::
  "array dict \<Rightarrow> nat list \<Rightarrow> nat list \<Rightarrow> nat list \<Rightarrow> nat list \<Rightarrow> (nat, nat) solver" where
  "new_solver ps Xt yt Xv yv =
     \<lparr>X_train = Xt, y_train = yt, X_val = Xv, y_val = yv,
      optim_config = [(''learning_rate'', Num (1 / 2))], lr_decay = 1, batch_size = 100,
      num_epochs = PyInt 10, print_every = 10, verbose = False, load_dir = None,
      path_checkpoints = ''checkpoints'', check_point_every = 0, custom_update_ld = None,
      batch_augment_func = None, num_processes = 1, model_params = ps, epoch = 0,
      best_val_acc = 0, best_params = [], loss_history = [], train_acc_history = [],
      val_acc_history = [], optim_configs = [], multiprocessing = False, pool = None,
      store = (\<lambda>a. []), world = 0\<rparr>"

definition demo_params :: "array dict" where
  "demo_params = [(''W'', [1, 2]), (''b'', [0])]"

text \<open>
  Eight training items, two validation items whose labels the model never predicts, a
  batch size of \<open>4\<close> and one epoch; one process, as by default.
\<close>

definition demo_solver :: "(nat, nat) solver" where
  "demo_solver =
     (new_solver demo_params [0, 1, 2, 3, 4, 5, 6, 7] [0, 0, 1, 1, 0, 0, 1, 1] [0, 1] [1, 1])
       \<lparr>batch_size := 4, num_epochs := PyInt 1\<rparr>"

text \<open>
  What a read of \<^verbatim>\<open>self.optim_configs[p][k]\<close> observes: the number, or the content of
  the array the entry refers to.
\<close>

definition config_value :: "('x, 'w) solver \<Rightarrow> string \<Rightarrow> string \<Rightarrow> py_error + array" where
  "config_value s p k =
     (case dict_get (optim_configs s) p of Inl e \<Rightarrow> Inl e
      | Inr cfg \<Rightarrow>
         (case dict_get cfg k of Inl e \<Rightarrow> Inl e | Inr v \<Rightarrow> Inr (read_cval (store s) v)))"

text \<open>
  The demo solver after \<^verbatim>\<open>_reset\<close>, when \<^verbatim>\<open>optim_config\<close> holds its learning rate as a
  numpy array (at address \<open>0\<close> of the store, with content \<open>1/2\<close>) and the decay is \<open>1/2\<close>.
\<close>

definition shared_lr_solver :: "(nat, nat) solver" where
  "shared_lr_solver =
     snd (reset (demo_solver\<lparr>optim_config := [(''learning_rate'', Ref 0)],
                             store := (\<lambda>a. [1 / 2]), lr_decay := 1 / 2\<rparr>))"

text \<open>The demo solver with two processes, and with one epoch and a half.\<close>

definition parallel_solver :: "(nat, nat) solver" where
  "parallel_solver = demo_solver\<lparr>num_processes := 2\<rparr>"

definition fractional_solver :: "(nat, nat) solver" where
  "fractional_solver = parallel_solver\<lparr>num_epochs := PyFloat (3 / 2)\<rparr>"

section \<open>Relations between the solver before and after an operation\<close>

text \<open>The second solver differs from the first in the world and the pool's state only.\<close>

definition evaluation_only :: "('x, 'w) solver \<Rightarrow> ('x, 'w) solver \<Rightarrow> bool" where
  "evaluation_only s s' =
     (\<exists>w p. s' = s\<lparr>world := w, pool := p\<rparr> \<and> (p = None) = (pool s = None))"

text \<open>
  From the first solver to the second, \<open>i\<close> losses, \<open>g\<close> train accuracies and \<open>g\<close>
  validation accuracies were appended and \<open>e\<close> epochs counted, while the verbosity, the
  print cadence and the existence of the pool stayed as they were. The best validation
  accuracy is the largest of the old one and the appended ones, and the best parameters
  are the old ones when no appended accuracy exceeds the old best.
\<close>

definition progress ::
  "('x, 'w) solver \<Rightarrow> ('x, 'w) solver \<Rightarrow> nat \<Rightarrow> nat \<Rightarrow> nat \<Rightarrow> bool" where
  "progress s s' i g e =
     (verbose s' = verbose s \<and> print_every s' = print_every s
      \<and> (pool s' = None) = (pool s = None)
      \<and> epoch s' = epoch s + int e
      \<and> (\<exists>ls. loss_history s' = loss_history s @ ls \<and> length ls = i)
      \<and> (\<exists>ta va. train_acc_history s' = train_acc_history s @ ta
             \<and> val_acc_history s' = val_acc_history s @ va
             \<and> length ta = g \<and> length va = g
             \<and> best_val_acc s' = fold max va (best_val_acc s)
             \<and> (list_all (\<lambda>v. v \<le> best_val_acc s) va \<longrightarrow> best_params s' = best_params s)))"

section \<open>What an accuracy check leaves untouched\<close>

lemma evaluation_only_refl: "evaluation_only s s"
  unfolding evaluation_only_def
  by (rule exI [of _ "world s"], rule exI [of _ "pool s"]) simp

lemma evaluation_only_trans:
  assumes "evaluation_only s s1" and "evaluation_only s1 s2"
  shows "evaluation_only s s2"
proof -
  from assms(1) obtain w p where 1: "s1 = s\<lparr>world := w, pool := p\<rparr>" "(p = None) = (pool s = None)"
    unfolding evaluation_only_def by auto
  from assms(2) obtain w' p' where 2: "s2 = s1\<lparr>world := w', pool := p'\<rparr>" "(p' = None) = (pool s1 = None)"
    unfolding evaluation_only_def by auto
  have 3: "s2 = s\<lparr>world := w', pool := p'\<rparr> \<and> (p' = None) = (pool s = None)"
    using 1 2 by simp
  show ?thesis unfolding evaluation_only_def
    by (rule exI [of _ w'], rule exI [of _ p'], rule 3)
qed

lemma evaluation_only_world: "evaluation_only s (s\<lparr>world := w\<rparr>)"
  unfolding evaluation_only_def
  by (rule exI [of _ w], rule exI [of _ "pool s"]) simp

lemma evaluation_only_pool:
  "pool s \<noteq> None \<Longrightarrow> evaluation_only s (s\<lparr>pool := Some p\<rparr>)"
  unfolding evaluation_only_def
  by (rule exI [of _ "world s"], rule exI [of _ "Some p"]) simp

lemma subsample_only: "evaluation_only s (snd (subsample env s X y ns))"
  unfolding subsample_def
  by (simp add: Let_def evaluation_only_refl evaluation_only_world
        split: option.split sum.split prod.split)

lemma predict_chunk_only: "evaluation_only s (snd (predict_chunk env s chunk))"
  unfolding predict_chunk_def
  by (simp add: evaluation_only_refl evaluation_only_pool
        split: option.split sum.split prod.split)

lemma predict_batches_only: "evaluation_only s (snd (predict_batches env s X bs is))"
proof (induction "is" arbitrary: s)
  case Nil
  show ?case by (simp add: evaluation_only_refl)
next
  case (Cons i "is")
  obtain r1 s1 where c: "predict_chunk env s (py_slice X (int i * bs) ((int i + 1) * bs)) = (r1, s1)"
    by (cases "predict_chunk env s (py_slice X (int i * bs) ((int i + 1) * bs))")
  have 1: "evaluation_only s s1" using predict_chunk_only [of s env] c by (metis snd_conv)
  obtain r2 s2 where b: "predict_batches env s1 X bs is = (r2, s2)"
    by (cases "predict_batches env s1 X bs is")
  have 2: "evaluation_only s1 s2" using Cons.IH [of s1] b by simp
  show ?case using c b 1 2 evaluation_only_trans [OF 1 2]
    by (simp split: sum.split)
qed

lemma check_accuracy_only:
  "evaluation_only s (snd (check_accuracy env s X y ns bs rp))"
proof -
  obtain r1 s1 where a: "subsample env s X y ns = (r1, s1)" by (cases "subsample env s X y ns")
  have 1: "evaluation_only s s1" using subsample_only [of s env X y ns] a by simp
  show ?thesis
  proof (cases r1)
    case (Inl e)
    then show ?thesis using a 1 unfolding check_accuracy_def
      by (simp add: evaluation_only_refl)
  next
    case (Inr t)
    obtain N X1 y1 where t: "t = (N, X1, y1)" by (cases t)
    let ?nb = "if N mod bs \<noteq> 0 then N div bs + 1 else N div bs"
    obtain r2 s2 where b: "predict_batches env s1 X1 bs [0..<nat ?nb] = (r2, s2)"
      by (cases "predict_batches env s1 X1 bs [0..<nat ?nb]")
    have 2: "evaluation_only s1 s2" using predict_batches_only [of s1 env X1 bs] b by (metis snd_conv)
    have 3: "evaluation_only s s2" by (rule evaluation_only_trans [OF 1 2])
    show ?thesis using a Inr t b 1 3 unfolding check_accuracy_def
      by (simp add: Let_def evaluation_only_refl split: sum.split option.split)
  qed
qed

text \<open>
  C10. \<^verbatim>\<open>check_accuracy\<close> leaves the training state as it was: the epoch counter, the three
  histories, the best parameters and the best validation accuracy, the optimizer configs
  (with the arrays they refer to) and the model's parameters are the same after the call
  as before it, for every dataset and every argument combination. This holds when the
  call returns and also when it raises.
\<close>

theorem check_accuracy_keeps_training_state:
  "epoch (snd (check_accuracy env s X y num_samples bs return_preds)) = epoch s
   \<and> loss_history (snd (check_accuracy env s X y num_samples bs return_preds)) = loss_history s
   \<and> train_acc_history (snd (check_accuracy env s X y num_samples bs return_preds))
       = train_acc_history s
   \<and> val_acc_history (snd (check_accuracy env s X y num_samples bs return_preds))
       = val_acc_history s
   \<and> best_params (snd (check_accuracy env s X y num_samples bs return_preds)) = best_params s
   \<and> best_val_acc (snd (check_accuracy env s X y num_samples bs return_preds)) = best_val_acc s
   \<and> optim_configs (snd (check_accuracy env s X y num_samples bs return_preds)) = optim_configs s
   \<and> store (snd (check_accuracy env s X y num_samples bs return_preds)) = store s
   \<and> model_params (snd (check_accuracy env s X y num_samples bs return_preds)) = model_params s"
proof -
  obtain w p where "snd (check_accuracy env s X y num_samples bs return_preds)
      = s\<lparr>world := w, pool := p\<rparr>"
    using check_accuracy_only [of s env X y num_samples bs return_preds]
    unfolding evaluation_only_def by blast
  then show ?thesis by simp
qed

section \<open>The histories along a training run\<close>

lemma progress_refl: "progress s s 0 0 0"
  by (simp add: progress_def)

lemma fold_max_le: "list_all (\<lambda>v. v \<le> b) va \<Longrightarrow> fold max va (b :: rat) = b"
  by (induction va) (simp_all add: max_absorb2)

lemma progress_trans:
  assumes "progress s s1 i g e" and "progress s1 s2 j h f"
  shows "progress s s2 (i + j) (g + h) (e + f)"
proof -
  from assms(1) obtain ls ta va where 1:
    "verbose s1 = verbose s" "print_every s1 = print_every s"
    "(pool s1 = None) = (pool s = None)" "epoch s1 = epoch s + int e"
    "loss_history s1 = loss_history s @ ls" "length ls = i"
    "train_acc_history s1 = train_acc_history s @ ta"
    "val_acc_history s1 = val_acc_history s @ va" "length ta = g" "length va = g"
    "best_val_acc s1 = fold max va (best_val_acc s)"
    "list_all (\<lambda>v. v \<le> best_val_acc s) va \<longrightarrow> best_params s1 = best_params s"
    unfolding progress_def by auto
  from assms(2) obtain ls' ta' va' where 2:
    "verbose s2 = verbose s1" "print_every s2 = print_every s1"
    "(pool s2 = None) = (pool s1 = None)" "epoch s2 = epoch s1 + int f"
    "loss_history s2 = loss_history s1 @ ls'" "length ls' = j"
    "train_acc_history s2 = train_acc_history s1 @ ta'"
    "val_acc_history s2 = val_acc_history s1 @ va'" "length ta' = h" "length va' = h"
    "best_val_acc s2 = fold max va' (best_val_acc s1)"
    "list_all (\<lambda>v. v \<le> best_val_acc s1) va' \<longrightarrow> best_params s2 = best_params s1"
    unfolding progress_def by auto
  have a: "loss_history s2 = loss_history s @ (ls @ ls') \<and> length (ls @ ls') = i + j"
    using 1 2 by simp
  have b: "train_acc_history s2 = train_acc_history s @ (ta @ ta')
      \<and> val_acc_history s2 = val_acc_history s @ (va @ va')
      \<and> length (ta @ ta') = g + h \<and> length (va @ va') = g + h
      \<and> best_val_acc s2 = fold max (va @ va') (best_val_acc s)
      \<and> (list_all (\<lambda>v. v \<le> best_val_acc s) (va @ va') \<longrightarrow> best_params s2 = best_params s)"
    using 1 2 fold_max_le [of "best_val_acc s" va] by auto
  show ?thesis unfolding progress_def using 1(1-4) 2(1-4) a b
    by (intro conjI) (simp, simp, simp, simp, blast, blast)
qed

lemma evaluation_only_progress: "evaluation_only s s' \<Longrightarrow> progress s s' 0 0 0"
  unfolding evaluation_only_def progress_def by auto

lemma compute_loss_only: "evaluation_only s (snd (compute_loss env s X y))"
  unfolding compute_loss_def
  by (simp add: evaluation_only_refl evaluation_only_pool split: option.split sum.split)

lemma update_params_progress: "progress s (snd (update_params env grads items s)) 0 0 0"
proof (induction items arbitrary: s)
  case Nil
  show ?case by (simp add: progress_refl)
next
  case (Cons a items)
  obtain p w where a: "a = (p, w)" by (cases a)
  have step: "progress s (s\<lparr>model_params := mp, optim_configs := oc, store := st\<rparr>) 0 0 0"
    for mp oc st by (simp add: progress_def)
  have "progress s (snd (update_params env grads items
           (s\<lparr>model_params := mp, optim_configs := oc, store := st\<rparr>))) 0 0 0" for mp oc st
    using progress_trans [OF step Cons.IH] by simp
  then show ?case unfolding a
    by (simp add: progress_refl split: sum.split prod.split)
qed

lemma progress_loss_append:
  "progress s (s\<lparr>loss_history := loss_history s @ [l]\<rparr>) 1 0 0"
  by (simp add: progress_def)

lemma update_params_after_append:
  "progress s (snd (update_params env grads items (s\<lparr>loss_history := loss_history s @ [l]\<rparr>))) 1 0 0"
  using progress_trans [OF progress_loss_append update_params_progress] by simp

lemma step_progress:
  "\<exists>i. progress s (snd (step env s)) i 0 0
       \<and> (fst (step env s) = None \<longrightarrow> i = 1)"
proof (cases "np_random_choice env (world s) (length (X_train s)) (batch_size s)")
  case (Inl e)
  then show ?thesis unfolding step_def by (auto intro: exI [of _ 0] simp: progress_refl)
next
  case (Inr t)
  obtain bm w1 where t: "t = (bm, w1)" by (cases t)
  let ?s1 = "s\<lparr>world := w1\<rparr>"
  have w: "progress s ?s1 0 0 0" by (simp add: progress_def)
  show ?thesis
  proof (cases "take_idx (X_train ?s1) bm")
    case (Inl e)
    then show ?thesis using Inr t w unfolding step_def by (auto intro: exI [of _ 0])
  next
    case X: (Inr X_batch0)
    show ?thesis
    proof (cases "take_idx (y_train ?s1) bm")
      case (Inl e)
      then show ?thesis using Inr t w X unfolding step_def by (auto intro: exI [of _ 0])
    next
      case Y: (Inr y_batch)
      let ?Xb = "case batch_augment_func ?s1 of None \<Rightarrow> X_batch0 | Some f \<Rightarrow> f X_batch0"
      obtain r s2 where c: "compute_loss env ?s1 ?Xb y_batch = (r, s2)"
        by (cases "compute_loss env ?s1 ?Xb y_batch")
      have "evaluation_only ?s1 s2" using compute_loss_only [of ?s1 env ?Xb y_batch] c by simp
      then have 2: "progress s s2 0 0 0"
        using progress_trans [OF w evaluation_only_progress] by simp
      show ?thesis
      proof (cases r)
        case (Inl e)
        then show ?thesis using Inr t X Y c 2 unfolding step_def
          by (auto intro: exI [of _ 0] simp: Let_def)
      next
        case (Inr lg)
        obtain loss grads where lg: "lg = (loss, grads)" by (cases lg)
        have "progress s (snd (update_params env grads (model_params s2)
                 (s2\<lparr>loss_history := loss_history s2 @ [loss]\<rparr>))) 1 0 0"
          using progress_trans [OF 2 update_params_after_append] by simp
        then show ?thesis using \<open>np_random_choice _ _ _ _ = Inr t\<close> t X Y c Inr lg
          unfolding step_def by (auto intro: exI [of _ 1] simp: Let_def)
      qed
    qed
  qed
qed

lemma evaluate_progress:
  "\<exists>g. progress s (snd (evaluate env it s)) 0 g 0
       \<and> (fst (evaluate env it s) = None \<longrightarrow> g = 1)"
proof -
  obtain r1 s1 where a:
    "check_accuracy env s (X_train s) (Some (y_train s)) (Some 1000) 100 False = (r1, s1)"
    by (cases "check_accuracy env s (X_train s) (Some (y_train s)) (Some 1000) 100 False")
  have "evaluation_only s s1"
    using check_accuracy_only [of s env "X_train s" "Some (y_train s)" "Some 1000" 100 False] a
    by simp
  then have 1: "progress s s1 0 0 0" by (rule evaluation_only_progress)
  obtain r2 s2 where b:
    "check_accuracy env s1 (X_val s1) (Some (y_val s1)) None 100 False = (r2, s2)"
    by (cases "check_accuracy env s1 (X_val s1) (Some (y_val s1)) None 100 False")
  have "evaluation_only s1 s2"
    using check_accuracy_only [of s1 env "X_val s1" "Some (y_val s1)" None 100 False] b
    by simp
  then have 2: "progress s s2 0 0 0"
    using progress_trans [OF 1 evaluation_only_progress] by simp
  have 3: "progress s2
     (s2\<lparr>train_acc_history := train_acc_history s2 @ [ta],
         val_acc_history := val_acc_history s2 @ [va]\<rparr>) 0 1 0"
    if "\<not> best_val_acc s2 < va" for ta va
    using that by (simp add: progress_def max_def)
  have 4: "progress s2
     (s2\<lparr>train_acc_history := train_acc_history s2 @ [ta],
         val_acc_history := val_acc_history s2 @ [va], best_val_acc := va, best_params := bp\<rparr>) 0 1 0"
    if "best_val_acc s2 < va" for ta va bp
    using that by (simp add: progress_def max_def)
  have 5: "progress s
     (s2\<lparr>train_acc_history := train_acc_history s2 @ [ta],
         val_acc_history := val_acc_history s2 @ [va]\<rparr>) 0 1 0"
    if "\<not> best_val_acc s2 < va" for ta va
    using progress_trans [OF 2 3 [OF that]] by simp
  have 6: "progress s
     (s2\<lparr>train_acc_history := train_acc_history s2 @ [ta],
         val_acc_history := val_acc_history s2 @ [va], best_val_acc := va, best_params := bp\<rparr>) 0 1 0"
    if "best_val_acc s2 < va" for ta va bp
    using progress_trans [OF 2 4 [OF that]] by simp
  show ?thesis
  proof (cases "fst (evaluate env it s) = None")
    case True
    then have "progress s (snd (evaluate env it s)) 0 1 0"
      using a b 5 6 unfolding evaluate_def
      by (auto simp: Let_def split: sum.splits acc_result.splits if_splits)
    then show ?thesis by (intro exI [of _ 1]) simp
  next
    case False
    then have "progress s (snd (evaluate env it s)) 0 0 0"
      using a b 1 2 unfolding evaluate_def
      by (auto simp: Let_def split: sum.splits acc_result.splits if_splits)
    then show ?thesis using False by (intro exI [of _ 0]) simp
  qed
qed

lemma decay_learning_rate_progress: "progress s (snd (decay_learning_rate k s)) 0 0 0"
  unfolding decay_learning_rate_def
  by (simp add: progress_def split: sum.split cval.split)

lemma decay_learning_rates_progress: "progress s (snd (decay_learning_rates ks s)) 0 0 0"
proof (induction ks arbitrary: s)
  case Nil
  show ?case by (simp add: progress_refl)
next
  case (Cons k ks)
  obtain r s1 where a: "decay_learning_rate k s = (r, s1)" by (cases "decay_learning_rate k s")
  have 1: "progress s s1 0 0 0" using decay_learning_rate_progress [of s k] a by simp
  have 2: "progress s (snd (decay_learning_rates ks s1)) 0 0 0"
    using progress_trans [OF 1 Cons.IH] by simp
  show ?case using a 1 2 by (simp split: option.split)
qed

lemma make_check_point_progress: "progress s (snd (make_check_point env s)) 0 0 0"
  unfolding make_check_point_def
  by (simp add: Let_def progress_def split: sum.split)

lemma end_of_epoch_progress: "progress s (snd (end_of_epoch env s)) 0 0 1"
proof -
  let ?s1 = "s\<lparr>epoch := epoch s + 1\<rparr>"
  let ?s2 = "case custom_update_ld ?s1 of None \<Rightarrow> ?s1 | Some f \<Rightarrow> ?s1\<lparr>lr_decay := f (epoch ?s1)\<rparr>"
  have 1: "progress s ?s2 0 0 1" by (simp add: progress_def split: option.split)
  obtain r s3 where a: "decay_learning_rates (map fst (optim_configs ?s2)) ?s2 = (r, s3)"
    by (cases "decay_learning_rates (map fst (optim_configs ?s2)) ?s2")
  have "progress ?s2 s3 0 0 0"
    using decay_learning_rates_progress [of ?s2 "map fst (optim_configs ?s2)"] a by simp
  then have 3: "progress s s3 0 0 1" using progress_trans [OF 1] by fastforce
  have 4: "progress s (snd (make_check_point env s3)) 0 0 1"
    using progress_trans [OF 3 make_check_point_progress] by simp
  show ?thesis using a 3 4 unfolding end_of_epoch_def
    by (simp add: Let_def split: option.split)
qed

lemma ex3I: "P a b c \<Longrightarrow> \<exists>i g e. P i g e"
  by blast

lemma evaluation_gate_cong:
  "progress s s' i g e \<Longrightarrow> evaluation_gate s' ipe n it = evaluation_gate s ipe n it"
  unfolding progress_def evaluation_gate_def by simp

lemma iteration_progress:
  "\<exists>i g e. progress s (snd (iteration env ipe n it s)) i g e
       \<and> (fst (iteration env ipe n it s) = None \<longrightarrow>
            i = 1 \<and> g = (if evaluation_gate s ipe n it then 1 else 0)
            \<and> e = (if epoch_end ipe it then 1 else 0))"
proof -
  obtain r1 s1 where a: "step env s = (r1, s1)" by (cases "step env s")
  obtain i where 1: "progress s s1 i 0 0" "r1 = None \<longrightarrow> i = 1"
    using step_progress [of s env] a by auto
  have gate: "evaluation_gate s1 ipe n it = evaluation_gate s ipe n it"
    using evaluation_gate_cong [OF 1(1)] .
  show ?thesis
  proof (cases r1)
    case (Some err)
    then show ?thesis using a 1 unfolding iteration_def
      by (intro ex3I [of _ i 0 0]) auto
  next
    case None
    then have i: "i = 1" using 1 by simp
    show ?thesis
    proof (cases "verbose s1 \<and> print_every s1 = 0")
      case True
      then show ?thesis using a None 1 unfolding iteration_def
        by (intro ex3I [of _ i 0 0]) auto
    next
      case False
      let ?ev = "if evaluation_gate s1 ipe n it then evaluate env it s1 else (None, s1)"
      obtain r2 s2 where b: "?ev = (r2, s2)" by (cases ?ev)
      obtain g where 2: "progress s1 s2 0 g 0"
        "r2 = None \<longrightarrow> g = (if evaluation_gate s ipe n it then 1 else 0)"
      proof (cases "evaluation_gate s1 ipe n it")
        case True
        obtain g where "progress s1 (snd (evaluate env it s1)) 0 g 0"
          "fst (evaluate env it s1) = None \<longrightarrow> g = 1"
          using evaluate_progress [of s1 env it] by auto
        then show ?thesis using that [of g] b True gate by auto
      next
        case False
        then show ?thesis using that [of 0] b gate progress_refl [of s1] by auto
      qed
      have 3: "progress s s2 1 g 0" using progress_trans [OF 1(1) 2(1)] i by simp
      show ?thesis
      proof (cases r2)
        case (Some err)
        then show ?thesis using a None False b 3 unfolding iteration_def
          by (intro ex3I [of _ 1 g 0]) auto
      next
        case r2: None
        show ?thesis
        proof (cases "epoch_end ipe it")
          case True
          have "progress s (snd (end_of_epoch env s2)) 1 g 1"
            using progress_trans [OF 3 end_of_epoch_progress] by simp
          then show ?thesis using a None False b r2 2(2) True unfolding iteration_def
            by (intro ex3I [of _ 1 g 1]) auto
        next
          case ee: False
          show ?thesis using a None False b r2 2(2) 3 ee unfolding iteration_def
            by (intro ex3I [of _ 1 g 0]) auto
        qed
      qed
    qed
  qed
qed

lemma train_loop_progress:
  "\<exists>i g e. progress s (snd (train_loop env ipe n its s)) i g e
       \<and> (fst (train_loop env ipe n its s) = None \<longrightarrow>
            i = length its
            \<and> g = length (filter (\<lambda>it. evaluation_gate s ipe n (int it)) its)
            \<and> e = length (filter (\<lambda>it. epoch_end ipe (int it)) its))"
proof (induction its arbitrary: s)
  case Nil
  show ?case using progress_refl [of s] by (intro ex3I [of _ 0 0 0]) auto
next
  case (Cons it its)
  obtain r1 s1 where a: "iteration env ipe n (int it) s = (r1, s1)"
    by (cases "iteration env ipe n (int it) s")
  obtain i g e where 1: "progress s s1 i g e"
    "r1 = None \<longrightarrow> i = 1 \<and> g = (if evaluation_gate s ipe n (int it) then 1 else 0)
            \<and> e = (if epoch_end ipe (int it) then 1 else 0)"
    using iteration_progress [of s env ipe n "int it"] a by auto
  show ?case
  proof (cases r1)
    case (Some err)
    then show ?thesis using a 1 by (intro ex3I [of _ i g e]) auto
  next
    case None
    obtain j h f where 2: "progress s1 (snd (train_loop env ipe n its s1)) j h f"
      "fst (train_loop env ipe n its s1) = None \<longrightarrow>
            j = length its
            \<and> h = length (filter (\<lambda>it. evaluation_gate s1 ipe n (int it)) its)
            \<and> f = length (filter (\<lambda>it. epoch_end ipe (int it)) its)"
      using Cons.IH [of s1] by auto
    have gate: "evaluation_gate s1 ipe n = evaluation_gate s ipe n"
      using evaluation_gate_cong [OF 1(1)] by (intro ext)
    have 3: "progress s (snd (train_loop env ipe n its s1)) (i + j) (g + h) (e + f)"
      by (rule progress_trans [OF 1(1) 2(1)])
    show ?thesis using a None 1(2) 2(2) 3 gate
      by (intro ex3I [of _ "i + j" "g + h" "e + f"]) auto
  qed
qed




lemma num_iterations_whole_epochs:
  "num_epochs s = PyInt k \<Longrightarrow> num_iterations env s = k * iterations_per_epoch s"
  by (simp add: num_iterations_def)

lemma swap_and_release_progress: "progress s (snd (swap_and_release s)) 0 0 0"
  unfolding swap_and_release_def by (simp add: Let_def progress_def split: option.split)

lemma train_iterations_progress:
  "\<exists>i g e. progress s (snd (train_iterations env s)) i g e
       \<and> (fst (train_iterations env s) = None \<longrightarrow>
            i = nat (num_iterations env s)
            \<and> g = length (filter (\<lambda>it. evaluation_gate s (iterations_per_epoch s)
                                     (num_iterations env s) (int it)) [0..<nat (num_iterations env s)])
            \<and> e = length (filter (\<lambda>it. epoch_end (iterations_per_epoch s) (int it))
                             [0..<nat (num_iterations env s)]))"
proof (cases "batch_size s = 0")
  case True
  then show ?thesis unfolding train_iterations_def using progress_refl [of s]
    by (intro ex3I [of _ 0 0 0]) simp
next
  case False
  then show ?thesis unfolding train_iterations_def
    using train_loop_progress [of s env "iterations_per_epoch s" "num_iterations env s"
            "[0..<nat (num_iterations env s)]"]
    by simp
qed

lemma train_progress:
  "\<exists>i g e. progress s (snd (train env s)) i g e
       \<and> (fst (train_iterations env s) = None \<longrightarrow>
            i = nat (num_iterations env s)
            \<and> g = length (filter (\<lambda>it. evaluation_gate s (iterations_per_epoch s)
                                     (num_iterations env s) (int it)) [0..<nat (num_iterations env s)])
            \<and> e = length (filter (\<lambda>it. epoch_end (iterations_per_epoch s) (int it))
                             [0..<nat (num_iterations env s)]))"
proof -
  obtain r s1 where a: "train_iterations env s = (r, s1)" by (cases "train_iterations env s")
  obtain i g e where 1: "progress s s1 i g e"
     "r = None \<longrightarrow>
            i = nat (num_iterations env s)
            \<and> g = length (filter (\<lambda>it. evaluation_gate s (iterations_per_epoch s)
                                     (num_iterations env s) (int it)) [0..<nat (num_iterations env s)])
            \<and> e = length (filter (\<lambda>it. epoch_end (iterations_per_epoch s) (int it))
                             [0..<nat (num_iterations env s)])"
    using train_iterations_progress [of s env] a by auto
  have 2: "progress s (snd (swap_and_release s1)) i g e"
    using progress_trans [OF 1(1) swap_and_release_progress] by simp
  show ?thesis using a 1 2 unfolding train_def
    by (intro ex3I [of _ i g e]) (auto split: option.split)
qed





text \<open>
  C7. Along every run of \<^verbatim>\<open>train\<close> the three histories only grow at their ends, and the
  train and validation accuracy histories grow by the same number of entries; when the
  loop runs to its end, the loss history has grown by one entry per iteration and each
  accuracy history by one entry per iteration whose evaluation gate is open. After a
  reset the histories start empty, so their lengths are these numbers.
\<close>

theorem train_histories_follow_iterations_and_checks:
  "\<exists>ls ta va.
      loss_history (snd (train env s)) = loss_history s @ ls
      \<and> train_acc_history (snd (train env s)) = train_acc_history s @ ta
      \<and> val_acc_history (snd (train env s)) = val_acc_history s @ va
      \<and> length ta = length va
      \<and> (fst (train_iterations env s) = None \<longrightarrow>
           length ls = nat (num_iterations env s)
           \<and> length ta = length (filter (\<lambda>it. evaluation_gate s (iterations_per_epoch s)
                                     (num_iterations env s) (int it)) [0..<nat (num_iterations env s)]))"
  using train_progress [of s env] unfolding progress_def by fastforce

theorem train_histories_follow_iterations_and_checks_witness:
  "fst (train_iterations demo_env (snd (reset parallel_solver))) = None
   \<and> length (loss_history (snd (train demo_env (snd (reset parallel_solver))))) = 2
   \<and> length (train_acc_history (snd (train demo_env (snd (reset parallel_solver))))) = 2
   \<and> length (val_acc_history (snd (train demo_env (snd (reset parallel_solver))))) = 2"
proof -
  let ?S = "snd (reset parallel_solver)"
  have h: "fst (train_iterations demo_env ?S) = None" by code_simp
  have v: "loss_history ?S = []" "train_acc_history ?S = []" "val_acc_history ?S = []"
    "nat (num_iterations demo_env ?S) = 2"
    "length (filter (\<lambda>it. evaluation_gate ?S (iterations_per_epoch ?S) (num_iterations demo_env ?S)
               (int it)) [0..<nat (num_iterations demo_env ?S)]) = 2"
    by code_simp+
  show ?thesis
    using train_histories_follow_iterations_and_checks [of demo_env ?S] h v by auto
qed

section \<open>The end of training\<close>

lemma reset_single_process:
  "num_processes s = 1 \<Longrightarrow> fst (reset s) = None \<and> pool (snd (reset s)) = pool s"
  by (simp add: reset_def Let_def)

lemma train_without_pool:
  assumes "pool s = None"
  shows "fst (train env s) \<noteq> None
     \<and> (fst (train_iterations env s) = None \<longrightarrow> fst (train env s) = Some AttributeError)"
proof -
  obtain r s1 where a: "train_iterations env s = (r, s1)" by (cases "train_iterations env s")
  obtain i g e where "progress s s1 i g e" using train_iterations_progress [of s env] a by auto
  then have "pool s1 = None" using assms unfolding progress_def by simp
  then show ?thesis using a unfolding train_def swap_and_release_def
    by (cases r) (simp_all add: Let_def)
qed

lemma train_with_pool:
  assumes "pool s \<noteq> None" and "fst (train_iterations env s) = None"
  shows "fst (train env s) = None
    \<and> model_params (snd (train env s)) = best_params (snd (train_iterations env s))
    \<and> pool (snd (train env s)) = Some Terminated"
proof -
  obtain r s1 where a: "train_iterations env s = (r, s1)" by (cases "train_iterations env s")
  obtain i g e where "progress s s1 i g e" using train_iterations_progress [of s env] a by auto
  then have "pool s1 \<noteq> None" using assms(1) unfolding progress_def by simp
  then show ?thesis using a assms(2) unfolding train_def swap_and_release_def
    by (auto simp: Let_def)
qed

text \<open>
  C1. The claim: for every configuration, \<^verbatim>\<open>num_processes = 1\<close> and \<^verbatim>\<open>num_iterations = 0\<close>
  included, \<^verbatim>\<open>train\<close> ends by swapping the best snapshot into the model and releasing the
  pool without raising. The code creates \<^verbatim>\<open>self.pool\<close> only when \<^verbatim>\<open>num_processes\<close> is
  not \<open>1\<close>, and line 464 calls \<^verbatim>\<open>self.pool.terminate()\<close> in every case. So for every
  solver with one process (the default) that has no pool attribute before \<^verbatim>\<open>_reset\<close>,
  the reset succeeds and \<^verbatim>\<open>train\<close> never returns normally: when its loop runs to the end,
  \<^verbatim>\<open>AttributeError\<close> is raised after the swap. The witness runs the demo solver, for one
  epoch and for none.
\<close>

theorem train_single_process_never_returns:
  assumes "num_processes s = 1" and "pool s = None"
  shows "fst (reset s) = None
    \<and> fst (train env (snd (reset s))) \<noteq> None
    \<and> (fst (train_iterations env (snd (reset s))) = None
          \<longrightarrow> fst (train env (snd (reset s))) = Some AttributeError)"
proof -
  have "pool (snd (reset s)) = None" using reset_single_process [OF assms(1)] assms(2) by simp
  from train_without_pool [OF this, of env] show ?thesis
    using reset_single_process [OF assms(1)] by simp
qed

theorem train_single_process_never_returns_witness:
  "num_processes demo_solver = 1 \<and> pool demo_solver = None
   \<and> fst (train_iterations demo_env (snd (reset demo_solver))) = None
   \<and> fst (train demo_env (snd (reset demo_solver))) = Some AttributeError
   \<and> fst (train demo_env (snd (reset (demo_solver\<lparr>num_epochs := PyInt 0\<rparr>)))) = Some AttributeError"
proof -
  have h1: "num_processes demo_solver = 1" by code_simp
  have h2: "pool demo_solver = None" by code_simp
  have h3: "fst (train_iterations demo_env (snd (reset demo_solver))) = None" by code_simp
  have z: "fst (train demo_env (snd (reset (demo_solver\<lparr>num_epochs := PyInt 0\<rparr>))))
             = Some AttributeError" by code_simp
  show ?thesis
    using train_single_process_never_returns [OF h1 h2, of demo_env] h1 h2 h3 z by simp
qed

lemma reset_fresh:
  "epoch (snd (reset s)) = 0 \<and> best_val_acc (snd (reset s)) = 0
   \<and> best_params (snd (reset s)) = [] \<and> loss_history (snd (reset s)) = []
   \<and> train_acc_history (snd (reset s)) = [] \<and> val_acc_history (snd (reset s)) = []"
  by (simp add: reset_def Let_def)

text \<open>
  C4. The claim: after \<^verbatim>\<open>train\<close> the model holds the snapshot of the evaluation with the
  highest validation accuracy, and since the initial best accuracy is beaten by any valid
  accuracy, a snapshot exists whenever an evaluation took place. The code starts
  \<^verbatim>\<open>best_val_acc\<close> at \<open>0\<close> and takes a snapshot only when \<^verbatim>\<open>val_acc > self.best_val_acc\<close>.
  So whenever \<^verbatim>\<open>train\<close> returns after a reset and no recorded validation accuracy is above
  \<open>0\<close>, no snapshot was taken and the swap leaves the model with an empty parameter store.
  The witness is the demo model, which predicts none of the two validation labels:
  training completes and two evaluations record the accuracy \<open>0\<close>.
\<close>

theorem train_zero_accuracy_empties_model:
  assumes "fst (train env (snd (reset s))) = None"
    and "list_all (\<lambda>v. v \<le> 0) (val_acc_history (snd (train env (snd (reset s)))))"
  shows "model_params (snd (train env (snd (reset s)))) = []"
proof -
  let ?S = "snd (reset s)"
  obtain r s1 where a: "train_iterations env ?S = (r, s1)" by (cases "train_iterations env ?S")
  have r: "r = None" using assms(1) a unfolding train_def by (cases r) simp_all
  have t: "snd (train env ?S) = snd (swap_and_release s1)" using a r unfolding train_def by simp
  obtain i g e where "progress ?S s1 i g e"
    using train_iterations_progress [of ?S env] a by auto
  then obtain va where v: "val_acc_history s1 = val_acc_history ?S @ va"
    "list_all (\<lambda>v. v \<le> best_val_acc ?S) va \<longrightarrow> best_params s1 = best_params ?S"
    unfolding progress_def by auto
  have "val_acc_history (snd (train env ?S)) = val_acc_history s1"
    using t unfolding swap_and_release_def by (simp add: Let_def split: option.split)
  then have "list_all (\<lambda>v. v \<le> 0) va" using assms(2) v(1) reset_fresh [of s] by simp
  then have "best_params s1 = []" using v(2) reset_fresh [of s] by simp
  then show ?thesis using t unfolding swap_and_release_def
    by (simp add: Let_def split: option.split)
qed

theorem train_zero_accuracy_empties_model_witness:
  "fst (train demo_env (snd (reset parallel_solver))) = None
   \<and> val_acc_history (snd (train demo_env (snd (reset parallel_solver)))) = [0, 0]
   \<and> model_params (snd (reset parallel_solver)) = demo_params
   \<and> model_params (snd (train demo_env (snd (reset parallel_solver)))) = []"
proof -
  have h1: "fst (train demo_env (snd (reset parallel_solver))) = None" by code_simp
  have v: "val_acc_history (snd (train demo_env (snd (reset parallel_solver)))) = [0, 0]"
    by code_simp
  have h2: "list_all (\<lambda>v. v \<le> 0)
              (val_acc_history (snd (train demo_env (snd (reset parallel_solver)))))"
    unfolding v by simp
  have p: "model_params (snd (reset parallel_solver)) = demo_params" by code_simp
  show ?thesis using train_zero_accuracy_empties_model [OF h1 h2] h1 v p by simp
qed

section \<open>The evaluation gate\<close>

text \<open>
  Inside the loop the test for the final iteration never holds; for a whole number of
  epochs the final iteration completes an epoch, so the gate opens there all the same.
\<close>

lemma evaluation_gate_inside_loop:
  "it < n \<Longrightarrow>
     evaluation_gate s ipe n it
       = (it = 0 \<or> epoch_end ipe it \<or> (verbose s \<and> (it + 1) mod print_every s = 0))"
  by (auto simp: evaluation_gate_def Let_def)

lemma whole_epochs_end_with_epoch_end:
  "num_epochs s = PyInt k \<Longrightarrow> epoch_end (iterations_per_epoch s) (num_iterations env s - 1)"
  using num_iterations_whole_epochs [of s k env] by (simp add: epoch_end_def)

text \<open>
  C5. The claim: the gate opens exactly on the first iteration, the final iteration, the
  iterations that complete an epoch and the verbose cadence; in particular on the final
  one. The code tests \<^verbatim>\<open>it == num_iterations + 1\<close> for the final iteration, which no
  iteration of the loop satisfies. With eight items, a batch size of \<open>4\<close> and one epoch
  and a half there are \<open>3\<close> iterations of \<open>2\<close> per epoch; the final one (\<open>it = 2\<close>)
  completes no epoch and the gate stays shut: training completes with three losses and
  two accuracy checks.
\<close>

theorem evaluation_gate_misses_final_iteration:
  "iterations_per_epoch (snd (reset fractional_solver)) = 2
   \<and> num_iterations demo_env (snd (reset fractional_solver)) = 3
   \<and> \<not> evaluation_gate (snd (reset fractional_solver)) 2 3 2
   \<and> fst (train demo_env (snd (reset fractional_solver))) = None
   \<and> length (loss_history (snd (train demo_env (snd (reset fractional_solver))))) = 3
   \<and> length (val_acc_history (snd (train demo_env (snd (reset fractional_solver))))) = 2"
  by code_simp

section \<open>The evaluator's contract on labels and predictions\<close>

text \<open>
  C2. The claim: \<^verbatim>\<open>check_accuracy\<close> raises before computing anything when labels come
  together with \<^verbatim>\<open>return_preds=True\<close>, and when labels are missing while
  \<^verbatim>\<open>return_preds=False\<close>. The assertion of the code has the form \<open>A or not A\<close>: it holds
  for every combination. With labels and \<^verbatim>\<open>return_preds=True\<close> the predictions are
  returned; with neither, the accuracy \<open>0\<close> is returned.
\<close>

theorem check_accuracy_contract_never_enforced:
  "labels_contract_assertion y return_preds
   \<and> fst (check_accuracy demo_env (snd (reset demo_solver)) [0, 1] (Some [0, 0]) None 100 True)
       = Inr (Preds [0, 0])
   \<and> fst (check_accuracy demo_env (snd (reset demo_solver)) [0, 1] None None 100 False)
       = Inr (Acc 0)"
proof -
  have a: "labels_contract_assertion y return_preds"
    unfolding labels_contract_assertion_def by blast
  have b:
    "fst (check_accuracy demo_env (snd (reset demo_solver)) [0, 1] (Some [0, 0]) None 100 True)
       = Inr (Preds [0, 0])"
    by code_simp
  have c:
    "fst (check_accuracy demo_env (snd (reset demo_solver)) [0, 1] None None 100 False)
       = Inr (Acc 0)"
    by code_simp
  show ?thesis using a b c by simp
qed

section \<open>Restoring a checkpoint\<close>

lemma try_load_empty: "try_load env s [] = Inl ValueError"
  by (simp add: try_load_def py_max_def)

lemma mapM_Inl: "x \<in> set xs \<Longrightarrow> f x = Inl e \<Longrightarrow> \<exists>e'. mapM f xs = Inl e'"
  by (induction xs) (auto split: sum.split)

lemma try_load_unparseable:
  assumes "f \<in> set checkpoints" and "checkpoint_number f = Inl e"
  shows "\<exists>e'. try_load env s checkpoints = Inl e'"
proof -
  obtain e' where "mapM checkpoint_number checkpoints = Inl e'"
    using mapM_Inl [of f checkpoints checkpoint_number e] assms by blast
  then show ?thesis unfolding try_load_def by simp
qed

lemma load_current_checkpoint_falls_back:
  assumes "load_dir s = Some d" and "listdir env (world s) d = Inr checkpoints"
    and "try_load env s checkpoints = Inl e"
  shows "load_current_checkpoint env s = reset s"
  using assms by (simp add: load_current_checkpoint_def)

text \<open>
  C3. The claim: for a resume directory that is empty, unreadable, missing or without a
  parseable record, the restore raises nothing and falls back to a fresh training state.
  The code lists the directory before its \<^verbatim>\<open>try\<close>: whatever \<^verbatim>\<open>os.listdir\<close> raises for a
  missing or unreadable directory leaves \<^verbatim>\<open>load_current_checkpoint\<close>, and with it the
  constructor. (Once the listing succeeds, every failure falls back to \<^verbatim>\<open>_reset\<close>, as
  the lemmas above say.)
\<close>

theorem load_current_checkpoint_listing_error_propagates:
  assumes "load_dir s = Some d" and "d \<noteq> []" and "listdir env (world s) d = Inl e"
    and "fst (reset s) = None"
  shows "load_current_checkpoint env s = (Some e, s) \<and> fst (init env s) = Some e"
proof -
  have 1: "load_current_checkpoint env s = (Some e, s)"
    using assms(1,3) by (simp add: load_current_checkpoint_def)
  obtain s1 where r: "reset s = (None, s1)" using assms(4) by (cases "reset s") simp
  have "load_dir s1 = Some d \<and> world s1 = world s"
    using r assms(1) unfolding reset_def by (auto simp: Let_def split: if_splits)
  then have "load_current_checkpoint env s1 = (Some e, s1)"
    using assms(3) by (simp add: load_current_checkpoint_def)
  then have "fst (init env s) = Some e"
    using r assms(1,2) \<open>load_dir s1 = Some d \<and> world s1 = world s\<close> unfolding init_def by simp
  then show ?thesis using 1 by simp
qed

theorem load_current_checkpoint_listing_error_propagates_witness:
  "load_dir (demo_solver\<lparr>load_dir := Some ''missing''\<rparr>) = Some ''missing''
   \<and> ''missing'' \<noteq> []
   \<and> listdir demo_env (world (demo_solver\<lparr>load_dir := Some ''missing''\<rparr>)) ''missing''
       = Inl OSError
   \<and> fst (reset (demo_solver\<lparr>load_dir := Some ''missing''\<rparr>)) = None
   \<and> fst (load_current_checkpoint demo_env (demo_solver\<lparr>load_dir := Some ''missing''\<rparr>))
       = Some OSError
   \<and> fst (init demo_env (demo_solver\<lparr>load_dir := Some ''missing''\<rparr>)) = Some OSError"
proof -
  let ?s = "demo_solver\<lparr>load_dir := Some ''missing''\<rparr>"
  have h1: "load_dir ?s = Some ''missing''" by simp
  have h2: "''missing'' \<noteq> []" by simp
  have h3: "listdir demo_env (world ?s) ''missing'' = Inl OSError" by code_simp
  have h4: "fst (reset ?s) = None" by code_simp
  show ?thesis
    using load_current_checkpoint_listing_error_propagates [OF h1 h2 h3 h4] h1 h3 h4 by simp
qed

section \<open>Gradient aggregation in the parallel path\<close>




lemma map_of_dict_set: "map_of (dict_set k v d) = (map_of d)(k \<mapsto> v)"
  unfolding dict_set_def by (rule update_conv')







section \<open>The optimizer configs after a reset\<close>

text \<open>
  What does hold: every parameter gets a config with the entries of \<^verbatim>\<open>optim_config\<close>, and
  storing a config under one parameter name leaves the config under another name as it
  was. The entries themselves are the same values, references included.
\<close>

lemma dict_get_other_key: "p \<noteq> q \<Longrightarrow> dict_get (dict_set p c d) q = dict_get d q"
  by (simp add: dict_get_def dict_set_def update_conv')

lemma map_of_fold_dict_set:
  "distinct (map fst d) \<Longrightarrow>
     map_of (fold (\<lambda>(k, v) acc. dict_set k v acc) d acc) = map_of acc ++ map_of d"
proof (induction d arbitrary: acc)
  case Nil
  show ?case by simp
next
  case (Cons a d)
  obtain k v where a: "a = (k, v)" by (cases a)
  have k: "map_of d k = None" using Cons.prems a by (simp add: map_of_eq_None_iff)
  have 1: "map_of (fold (\<lambda>(k, v) acc. dict_set k v acc) d (dict_set k v acc))
          = map_of (dict_set k v acc) ++ map_of d"
    using Cons.IH [of "dict_set k v acc"] Cons.prems by simp
  have "(map_of (dict_set k v acc) ++ map_of d) x = (map_of acc ++ map_of (a # d)) x" for x
    using k a by (cases "map_of d x") (auto simp: map_of_dict_set map_add_def)
  then have 2: "map_of (dict_set k v acc) ++ map_of d = map_of acc ++ map_of (a # d)"
    by (intro ext)
  have "fold (\<lambda>(k, v) acc. dict_set k v acc) (a # d) acc
          = fold (\<lambda>(k, v) acc. dict_set k v acc) d (dict_set k v acc)"
    using a by simp
  then show ?case using 1 2 by (simp only:)
qed

lemma map_of_dict_copy: "distinct (map fst d) \<Longrightarrow> map_of (dict_copy d) = map_of d"
  unfolding dict_copy_def by (simp add: map_of_fold_dict_set)

lemma map_of_fold_params:
  "map_of (fold (\<lambda>p cfgs. dict_set p c cfgs) ps acc) q
     = (if q \<in> set ps then Some c else map_of acc q)"
  by (induction ps arbitrary: acc) (auto simp: map_of_dict_set)

lemma reset_configs:
  assumes "distinct (map fst (optim_config s))" and "p \<in> fst ` set (model_params s)"
  shows "\<exists>cfg. dict_get (optim_configs (snd (reset s))) p = Inr cfg
           \<and> map_of cfg = map_of (optim_config s)"
proof -
  have "optim_configs (snd (reset s))
          = fold (\<lambda>p cfgs. dict_set p (dict_copy (optim_config s)) cfgs)
              (map fst (model_params s)) []"
    by (simp add: reset_def Let_def)
  then have "dict_get (optim_configs (snd (reset s))) p = Inr (dict_copy (optim_config s))"
    using assms(2) by (simp add: dict_get_def map_of_fold_params)
  then show ?thesis using map_of_dict_copy [OF assms(1)] by simp
qed

text \<open>
  C9. The claim: \<^verbatim>\<open>_reset\<close> deep-copies \<^verbatim>\<open>optim_config\<close> for every parameter, so that no
  later change of one parameter's config, in-place updates and the learning-rate decay
  included, shows in another's. The code builds a new dictionary per parameter that holds
  the same values (its comment says deep copy), so a value that is a mutable array is
  shared by all configs. With the learning rate given as a numpy array of content \<open>1/2\<close>
  and a decay of \<open>1/2\<close>, decaying the config of \<^verbatim>\<open>W\<close> alone changes what the config of
  \<^verbatim>\<open>b\<close> reads, and after one end of epoch every learning rate is \<open>1/8\<close>, not \<open>1/4\<close>.
\<close>

theorem reset_shares_mutable_hyperparameters:
  "config_value shared_lr_solver ''b'' ''learning_rate'' = Inr [1 / 2]
   \<and> config_value (snd (decay_learning_rate ''W'' shared_lr_solver)) ''b'' ''learning_rate''
       = Inr [1 / 4]
   \<and> config_value (snd (end_of_epoch demo_env shared_lr_solver)) ''W'' ''learning_rate''
       = Inr [1 / 8]
   \<and> config_value (snd (end_of_epoch demo_env shared_lr_solver)) ''b'' ''learning_rate''
       = Inr [1 / 8]"
  by code_simp

end
